theory Spec2Isabelle
  imports Main "HOL-Library.AList"
begin

section \<open>Data exchanged by the relay\<close>

text \<open>
  The file \<^verbatim>\<open>src/domain/thirdpartyRequests/authorizations.ts\<close> exports two asynchronous
  functions, \<^verbatim>\<open>forwardPostAuthorization\<close> and \<^verbatim>\<open>forwardPostAuthorizationError\<close>. Both are
  straight-line code around a \<^verbatim>\<open>try\<close>/\<^verbatim>\<open>catch\<close>. A rejected promise is modelled as the left
  summand of a sum type, a resolved one as the right summand.
\<close>

datatype status = PENDING

record PostAuthorizationPayload =
  challenge :: string
  payload_value :: string
  consentId :: string
  sourceAccountId :: string
  status :: status

text \<open>
  \<^verbatim>\<open>HapiUtil.Dictionary<string>\<close>: an object with string keys, kept in insertion order. A
  field can hold \<^verbatim>\<open>undefined\<close> (\<open>None\<close>): the catch block of the forwarder stores
  \<^verbatim>\<open>sourceDfspId\<close> under a key whether or not the header was there.
\<close>

type_synonym Dictionary = "(string \<times> string option) list"

text \<open>\<^verbatim>\<open>headers[key]\<close>: \<^verbatim>\<open>undefined\<close> for a missing key and for a key holding \<^verbatim>\<open>undefined\<close>.\<close>

definition header_get :: "Dictionary \<Rightarrow> string \<Rightarrow> string option" where
  "header_get headers key = (case map_of headers key of None \<Rightarrow> None | Some v \<Rightarrow> v)"

text \<open>The errors of \<^verbatim>\<open>@mojaloop/central-services-error-handling\<close>, and what a \<^verbatim>\<open>catch\<close> can see.\<close>

record FSPIOPError =
  apiErrorCode :: string
  message :: string

datatype thrown =
    TypeError string
  | Error string
  | FSPIOP FSPIOPError

record APIErrorObject =
  errorCode :: string
  errorDescription :: string

text \<open>
  The body of a request. The escalator declares its \<^verbatim>\<open>payload\<close> parameter with the type of
  the authorization payload, and the forwarder hands it the API error object.
\<close>

datatype body =
    AuthorizationBody PostAuthorizationPayload
  | ErrorBody APIErrorObject

text \<open>The symbolic members of \<^verbatim>\<open>Enum\<close> that the two functions only pass on.\<close>

datatype endpoint_type =
    THIRDPARTY_TRANSACTIONS_AUTHORIZATIONS_POST
  | THIRDPARTY_CALLBACK_URL_TRANSACTION_REQUEST_AUTHORIZATIONS_PUT_ERROR

datatype rest_method = POST | PUT

datatype response_type = JSON

section \<open>Spans\<close>

text \<open>
  The \<^verbatim>\<open>span\<close> argument has type \<^verbatim>\<open>any\<close>. It is absent (\<open>None\<close>), a span of the tracing
  SDK, or an object without \<^verbatim>\<open>getChild\<close> such as the \<^verbatim>\<open>{}\<close> of the handler tests. Spans are
  mutable objects shared with the sender and with the escalator, so they live in a store
  and are referred to by their index.
\<close>

datatype span_value = SpanRef nat | PlainObject

record span_state =
  spanName :: string
  parentSpan :: nat
  isFinished :: bool
  finishCalls :: nat
  errorState :: "FSPIOPError option"

datatype log_level = Info | Err

record send_args =
  sr_url :: string
  sr_headers :: Dictionary
  sr_source :: "string option"
  sr_destination :: "string option"
  sr_method :: rest_method
  sr_payload :: body
  sr_responseType :: response_type
  sr_span :: "nat option"

record escalation_args =
  esc_path :: string
  esc_headers :: Dictionary
  esc_transactionRequestId :: string
  esc_payload :: body
  esc_span :: "nat option"

text \<open>
  What one run does to the outside, in order: the calls to the endpoint resolver, to the
  sender and to the logger (with the fixed head of the message), and each call the
  forwarder makes to the escalator.
\<close>

datatype event =
    GetEndpoint string "string option" endpoint_type
  | SendRequest send_args
  | Log log_level string
  | Escalation escalation_args

record world =
  spans :: "span_state list"
  trace :: "event list"

definition emit :: "event \<Rightarrow> world \<Rightarrow> world" where
  "emit e w = w\<lparr>trace := trace w @ [e]\<rparr>"

text \<open>\<^verbatim>\<open>span.getChild(name)\<close> on a span of the SDK: a fresh, unfinished span under it.\<close>

definition getChild :: "nat \<Rightarrow> string \<Rightarrow> world \<Rightarrow> nat \<times> world" where
  "getChild p n w =
     (length (spans w),
      w\<lparr>spans := spans w @
         [\<lparr>spanName = n, parentSpan = p, isFinished = False, finishCalls = 0,
           errorState = None\<rparr>]\<rparr>)"

text \<open>
  \<^verbatim>\<open>span?.getChild(name)\<close>: \<^verbatim>\<open>undefined\<close> without a span, a \<^verbatim>\<open>TypeError\<close> when the object
  has no such method.
\<close>

fun optional_getChild :: "span_value option \<Rightarrow> string \<Rightarrow> world \<Rightarrow> thrown + (nat option \<times> world)" where
  "optional_getChild None n w = Inr (None, w)"
| "optional_getChild (Some PlainObject) n w = Inl (TypeError ''span.getChild is not a function'')"
| "optional_getChild (Some (SpanRef p)) n w = (case getChild p n w of (c, w') \<Rightarrow> Inr (Some c, w'))"

text \<open>\<^verbatim>\<open>childSpan.finish()\<close>.\<close>

definition finish :: "nat \<Rightarrow> world \<Rightarrow> world" where
  "finish c w =
     w\<lparr>spans := (spans w)[c := (spans w ! c)\<lparr>isFinished := True,
                                             finishCalls := Suc (finishCalls (spans w ! c))\<rparr>]\<rparr>"

text \<open>
  Modelled from the spec: \<^verbatim>\<open>finishChildSpan\<close> of \<^verbatim>\<open>~/shared/util\<close> is not among the sources.
  The spec gives it as the finish of the error-exit path, which finishes the span with
  error status: the span records the error and is finished by one call of \<^verbatim>\<open>finish\<close>.
\<close>

definition finishChildSpan :: "FSPIOPError \<Rightarrow> nat \<Rightarrow> world \<Rightarrow> world" where
  "finishChildSpan fspiopError c w =
     finish c (w\<lparr>spans := (spans w)[c := (spans w ! c)\<lparr>errorState := Some fspiopError\<rparr>]\<rparr>)"

text \<open>\<^verbatim>\<open>if (childSpan && !childSpan.isFinished) { childSpan.finish() }\<close>\<close>

definition finish_unless_finished :: "nat option \<Rightarrow> world \<Rightarrow> world" where
  "finish_unless_finished childSpan w =
     (case childSpan of
        None \<Rightarrow> w
      | Some c \<Rightarrow> if \<not> isFinished (spans w ! c) then finish c w else w)"

text \<open>\<^verbatim>\<open>if (childSpan && !childSpan.isFinished) { await finishChildSpan(fspiopError, childSpan) }\<close>\<close>

definition finishChildSpan_unless_finished :: "FSPIOPError \<Rightarrow> nat option \<Rightarrow> world \<Rightarrow> world" where
  "finishChildSpan_unless_finished fspiopError childSpan w =
     (case childSpan of
        None \<Rightarrow> w
      | Some c \<Rightarrow> if \<not> isFinished (spans w ! c) then finishChildSpan fspiopError c w else w)"

section \<open>Configuration and external collaborators\<close>

text \<open>
  The outcome of \<^verbatim>\<open>Util.Request.sendRequest\<close>: it resolves or rejects, and it may or may
  not have finished the span it was handed (both functions test \<^verbatim>\<open>isFinished\<close> afterwards).
\<close>

record send_outcome =
  rejected :: "thrown option"
  finishedSpan :: bool

text \<open>
  Everything the two functions import from other packages is a parameter: the values of
  \<^verbatim>\<open>Config\<close> and of the string members of \<^verbatim>\<open>Enum\<close>, the endpoint resolver, the template
  renderer, the sender, and the two operations on errors.
\<close>

record env =
  ENDPOINT_SERVICE_URL :: string
  includeCauseExtension :: bool
  truncateExtensions :: bool
  FSPIOP_SOURCE :: string
  FSPIOP_DESTINATION :: string
  FSPIOP_SWITCH_value :: string
  THIRDPARTY_TRANSACTION_REQUEST_AUTHORIZATIONS_PUT_ERROR :: string
  getEndpoint :: "string \<Rightarrow> string option \<Rightarrow> endpoint_type \<Rightarrow> thrown + string"
  Mustache_render :: "string \<Rightarrow> (string \<times> string) list \<Rightarrow> thrown + string"
  sendRequest :: "send_args \<Rightarrow> send_outcome"
  ReformatFSPIOPError :: "thrown \<Rightarrow> FSPIOPError"
  toApiErrorObject :: "FSPIOPError \<Rightarrow> bool \<Rightarrow> bool \<Rightarrow> APIErrorObject"

text \<open>The sender is called, and finishes the span it was given if it chooses to.\<close>

definition call_sendRequest :: "env \<Rightarrow> send_args \<Rightarrow> world \<Rightarrow> thrown option \<times> world" where
  "call_sendRequest e args w =
     (let out = sendRequest e args;
          w1 = emit (SendRequest args) w
      in (rejected out,
          case sr_span args of
            Some c \<Rightarrow> if finishedSpan out then finish c w1 else w1
          | None \<Rightarrow> w1))"

section \<open>The Error Escalator\<close>

text \<open>The body of the \<^verbatim>\<open>try\<close> block of \<^verbatim>\<open>forwardPostAuthorizationError\<close>.\<close>

definition forwardPostAuthorizationError_try ::
  "env \<Rightarrow> string \<Rightarrow> Dictionary \<Rightarrow> string \<Rightarrow> body \<Rightarrow> nat option \<Rightarrow> world \<Rightarrow> (thrown + unit) \<times> world" where
  "forwardPostAuthorizationError_try e path headers transactionRequestId payload childSpan w =
     (let sourceDfspId = header_get headers (FSPIOP_SOURCE e);
          destinationDfspId = header_get headers (FSPIOP_DESTINATION e);
          endpointType = THIRDPARTY_CALLBACK_URL_TRANSACTION_REQUEST_AUTHORIZATIONS_PUT_ERROR;
          w1 = emit (GetEndpoint (ENDPOINT_SERVICE_URL e) destinationDfspId endpointType) w
      in case getEndpoint e (ENDPOINT_SERVICE_URL e) destinationDfspId endpointType of
           Inl err \<Rightarrow> (Inl err, w1)
         | Inr endpoint \<Rightarrow>
             (let w2 = emit (Log Info ''authorizations::forwardPostAuthorizationError - Resolved destinationDfsp endpoint: '') w1
              in case Mustache_render e (endpoint @ path) [(''ID'', transactionRequestId)] of
                   Inl err \<Rightarrow> (Inl err, w2)
                 | Inr url \<Rightarrow>
                     (let w3 = emit (Log Info ''authorizations::forwardPostAuthorizationError - Forwarding thirdpartyTransaction authorization error callback to endpoint: '') w2
                      in case call_sendRequest e
                                \<lparr>sr_url = url, sr_headers = headers, sr_source = sourceDfspId,
                                 sr_destination = destinationDfspId, sr_method = PUT,
                                 sr_payload = payload, sr_responseType = JSON,
                                 sr_span = childSpan\<rparr> w3 of
                           (Some err, w4) \<Rightarrow> (Inl err, w4)
                         | (None, w4) \<Rightarrow>
                             (Inr (),
                              finish_unless_finished childSpan
                                (emit (Log Info ''authorizations::forwardPostAuthorization - Forwarded thirdpartyTransaction authorization error callback: '') w4)))))"

text \<open>Its \<^verbatim>\<open>catch\<close> block: normalise, finish the span, throw. Nothing is sent from here.\<close>

definition forwardPostAuthorizationError_catch ::
  "env \<Rightarrow> nat option \<Rightarrow> thrown \<Rightarrow> world \<Rightarrow> (thrown + unit) \<times> world" where
  "forwardPostAuthorizationError_catch e childSpan err w =
     (let w1 = emit (Log Err ''authorizations::forwardPostAuthorizationError - Error forwarding thirdpartyTransaction authorization error to endpoint: '') w;
          fspiopError = ReformatFSPIOPError e err
      in (Inl (FSPIOP fspiopError), finishChildSpan_unless_finished fspiopError childSpan w1))"

definition forwardPostAuthorizationError ::
  "env \<Rightarrow> string \<Rightarrow> Dictionary \<Rightarrow> string \<Rightarrow> body \<Rightarrow> span_value option \<Rightarrow> world \<Rightarrow> (thrown + unit) \<times> world" where
  "forwardPostAuthorizationError e path headers transactionRequestId payload span w =
     (case optional_getChild span ''forwardPostAuthorizationError'' w of
        Inl err \<Rightarrow> (Inl err, w)
      | Inr (childSpan, w0) \<Rightarrow>
          (case forwardPostAuthorizationError_try e path headers transactionRequestId payload childSpan w0 of
             (Inr u, w1) \<Rightarrow> (Inr u, w1)
           | (Inl err, w1) \<Rightarrow> forwardPostAuthorizationError_catch e childSpan err w1))"

section \<open>The Forwarder\<close>

text \<open>The body of the \<^verbatim>\<open>try\<close> block of \<^verbatim>\<open>forwardPostAuthorization\<close>.\<close>

definition forwardPostAuthorization_try ::
  "env \<Rightarrow> string \<Rightarrow> Dictionary \<Rightarrow> string \<Rightarrow> PostAuthorizationPayload \<Rightarrow> nat option \<Rightarrow> world \<Rightarrow> (thrown + unit) \<times> world" where
  "forwardPostAuthorization_try e path headers transactionRequestId payload childSpan w =
     (let sourceDfspId = header_get headers (FSPIOP_SOURCE e);
          destinationDfspId = header_get headers (FSPIOP_DESTINATION e);
          endpointType = THIRDPARTY_TRANSACTIONS_AUTHORIZATIONS_POST;
          w1 = emit (GetEndpoint (ENDPOINT_SERVICE_URL e) destinationDfspId endpointType) w
      in case getEndpoint e (ENDPOINT_SERVICE_URL e) destinationDfspId endpointType of
           Inl err \<Rightarrow> (Inl err, w1)
         | Inr endpoint \<Rightarrow>
             (let w2 = emit (Log Info ''authorizations::forwardPostAuthorization - Resolved destination party '') w1
              in case Mustache_render e (endpoint @ path) [(''ID'', transactionRequestId)] of
                   Inl err \<Rightarrow> (Inl err, w2)
                 | Inr url \<Rightarrow>
                     (let w3 = emit (Log Info ''authorizations::forwardPostAuthorization - Forwarding authorization to endpoint: '') w2
                      in case call_sendRequest e
                                \<lparr>sr_url = url, sr_headers = headers, sr_source = sourceDfspId,
                                 sr_destination = destinationDfspId, sr_method = POST,
                                 sr_payload = AuthorizationBody payload, sr_responseType = JSON,
                                 sr_span = childSpan\<rparr> w3 of
                           (Some err, w4) \<Rightarrow> (Inl err, w4)
                         | (None, w4) \<Rightarrow>
                             (Inr (),
                              finish_unless_finished childSpan
                                (emit (Log Info ''authorizations::forwardPostAuthorization - Forwarded thirdpartyTransaction authorization: '') w4)))))"

text \<open>
  \<^verbatim>\<open>{...headers, 'fspiop-source': Enum.Http.Headers.FSPIOP.SWITCH.value,
  'fspiop-destination': sourceDfspId}\<close>: a key already there keeps its place and takes the
  new value, a new key goes to the end.
\<close>

definition errorHeaders :: "env \<Rightarrow> Dictionary \<Rightarrow> Dictionary" where
  "errorHeaders e headers =
     AList.update ''fspiop-destination'' (header_get headers (FSPIOP_SOURCE e))
       (AList.update ''fspiop-source'' (Some (FSPIOP_SWITCH_value e)) headers)"

text \<open>
  Its \<^verbatim>\<open>catch\<close> block, up to and including the awaited call of the escalator
  (lines 96 to 109). The record of the call is added to the trace just before it.
\<close>

definition forwardPostAuthorization_escalate ::
  "env \<Rightarrow> Dictionary \<Rightarrow> string \<Rightarrow> nat option \<Rightarrow> thrown \<Rightarrow> world \<Rightarrow> (thrown + unit) \<times> world" where
  "forwardPostAuthorization_escalate e headers transactionRequestId childSpan err w =
     (let w1 = emit (Log Err ''authorizations::forwardPostAuthorization - Error forwarding thirdpartyTransaction authorization to endpoint: '') w;
          fspiopError = ReformatFSPIOPError e err;
          args = \<lparr>esc_path = THIRDPARTY_TRANSACTION_REQUEST_AUTHORIZATIONS_PUT_ERROR e,
                  esc_headers = errorHeaders e headers,
                  esc_transactionRequestId = transactionRequestId,
                  esc_payload = ErrorBody (toApiErrorObject e fspiopError (includeCauseExtension e) (truncateExtensions e)),
                  esc_span = childSpan\<rparr>
      in forwardPostAuthorizationError e (esc_path args) (esc_headers args)
           (esc_transactionRequestId args) (esc_payload args)
           (map_option SpanRef (esc_span args)) (emit (Escalation args) w1))"

text \<open>
  The whole \<^verbatim>\<open>catch\<close> block. The call of the escalator is awaited with no handler around
  it: when it rejects, the two statements after it (lines 111 to 114) do not run and the
  rejection is the outcome of the forwarder.
\<close>

definition forwardPostAuthorization_catch ::
  "env \<Rightarrow> Dictionary \<Rightarrow> string \<Rightarrow> nat option \<Rightarrow> thrown \<Rightarrow> world \<Rightarrow> (thrown + unit) \<times> world" where
  "forwardPostAuthorization_catch e headers transactionRequestId childSpan err w =
     (let fspiopError = ReformatFSPIOPError e err
      in case forwardPostAuthorization_escalate e headers transactionRequestId childSpan err w of
           (Inl escalationError, w2) \<Rightarrow> (Inl escalationError, w2)
         | (Inr u, w2) \<Rightarrow>
             (Inl (FSPIOP fspiopError), finishChildSpan_unless_finished fspiopError childSpan w2))"

definition forwardPostAuthorization ::
  "env \<Rightarrow> string \<Rightarrow> Dictionary \<Rightarrow> string \<Rightarrow> PostAuthorizationPayload \<Rightarrow> span_value option \<Rightarrow> world \<Rightarrow> (thrown + unit) \<times> world" where
  "forwardPostAuthorization e path headers transactionRequestId payload span w =
     (case optional_getChild span ''forwardPostAuthorization'' w of
        Inl err \<Rightarrow> (Inl err, w)
      | Inr (childSpan, w0) \<Rightarrow>
          (case forwardPostAuthorization_try e path headers transactionRequestId payload childSpan w0 of
             (Inr u, w1) \<Rightarrow> (Inr u, w1)
           | (Inl err, w1) \<Rightarrow> forwardPostAuthorization_catch e headers transactionRequestId childSpan err w1))"

section \<open>Reading a run\<close>

text \<open>The events a run added to the trace, and the calls among them.\<close>

definition new_events :: "world \<Rightarrow> world \<Rightarrow> event list" where
  "new_events w w' = drop (length (trace w)) (trace w')"

fun escalations :: "event list \<Rightarrow> escalation_args list" where
  "escalations [] = []"
| "escalations (Escalation a # evs) = a # escalations evs"
| "escalations (_ # evs) = escalations evs"

fun sends :: "event list \<Rightarrow> send_args list" where
  "sends [] = []"
| "sends (SendRequest a # evs) = a # sends evs"
| "sends (_ # evs) = sends evs"

fun resolutions :: "event list \<Rightarrow> endpoint_type list" where
  "resolutions [] = []"
| "resolutions (GetEndpoint u p t # evs) = t # resolutions evs"
| "resolutions (_ # evs) = resolutions evs"

text \<open>A span that was finished by exactly one call of \<^verbatim>\<open>finish\<close>.\<close>

definition finished_once :: "world \<Rightarrow> nat \<Rightarrow> bool" where
  "finished_once w c = (isFinished (spans w ! c) \<and> finishCalls (spans w ! c) = 1)"

text \<open>
  Bookkeeping of \<^verbatim>\<open>finish\<close> on one span: a span just created, and a span whose flag agrees
  with the number of calls.
\<close>

definition fresh :: "span_state \<Rightarrow> bool" where
  "fresh s = (\<not> isFinished s \<and> finishCalls s = 0)"

definition counted :: "span_state \<Rightarrow> bool" where
  "counted s = (if isFinished s then finishCalls s = 1 else finishCalls s = 0)"

text \<open>The arguments with which the \<^verbatim>\<open>catch\<close> block of the forwarder calls the escalator.\<close>

definition escalation_of :: "env \<Rightarrow> Dictionary \<Rightarrow> string \<Rightarrow> nat option \<Rightarrow> thrown \<Rightarrow> escalation_args" where
  "escalation_of e headers transactionRequestId childSpan err =
     \<lparr>esc_path = THIRDPARTY_TRANSACTION_REQUEST_AUTHORIZATIONS_PUT_ERROR e,
      esc_headers = errorHeaders e headers,
      esc_transactionRequestId = transactionRequestId,
      esc_payload = ErrorBody (toApiErrorObject e (ReformatFSPIOPError e err)
                                 (includeCauseExtension e) (truncateExtensions e)),
      esc_span = childSpan\<rparr>"

text \<open>The URLs a \<^verbatim>\<open>try\<close> block sends to once the endpoint is resolved: none when rendering fails.\<close>

abbreviation rendered :: "env \<Rightarrow> string \<Rightarrow> string \<Rightarrow> string \<Rightarrow> string list" where
  "rendered e endpoint path transactionRequestId \<equiv>
     (case Mustache_render e (endpoint @ path) [(''ID'', transactionRequestId)] of
        Inl err \<Rightarrow> [] | Inr url \<Rightarrow> [url])"

section \<open>The template renderer\<close>

text \<open>
  The claim about the URL speaks of literal substitution of a placeholder: every occurrence
  of the tag in the template is replaced by the text, and nothing else changes.
\<close>

fun substitute :: "string \<Rightarrow> string \<Rightarrow> string \<Rightarrow> string" where
  "substitute tag v [] = []"
| "substitute tag v (c # cs) =
     (if tag \<noteq> [] \<and> take (length tag) (c # cs) = tag
      then v @ substitute tag v (drop (length tag - 1) cs)
      else c # substitute tag v cs)"


definition escape_char :: "char \<Rightarrow> string" where
  "escape_char c =
     (if c = CHR ''&'' then ''&amp;''
      else if c = CHR ''<'' then ''&lt;''
      else if c = CHR ''>'' then ''&gt;''
      else if c = CHR 0x22 then ''&quot;''
      else if c = CHR 0x27 then ''&#39;''
      else if c = CHR ''/'' then ''&#x2F;''
      else if c = CHR 0x60 then ''&#x60;''
      else if c = CHR ''='' then ''&#x3D;''
      else [c])"

definition escapeHtml :: "string \<Rightarrow> string" where
  "escapeHtml v = concat (map escape_char v)"




section \<open>Sample runs\<close>

text \<open>
  A concrete environment for evaluating runs. It stands in for the packages the functions
  import: the renderer treats \<^verbatim>\<open>{{ID}}\<close> as Mustache does, an error that is no \<^verbatim>\<open>FSPIOPError\<close>
  is wrapped under the code of an internal server error, every participant has an endpoint
  and every request succeeds. The API error object is a stand-in for the one the error
  package builds.
\<close>

definition wrap_error :: "thrown \<Rightarrow> FSPIOPError" where
  "wrap_error err =
     (case err of
        FSPIOP f \<Rightarrow> f
      | TypeError m \<Rightarrow> \<lparr>apiErrorCode = ''2001'', message = m\<rparr>
      | Error m \<Rightarrow> \<lparr>apiErrorCode = ''2001'', message = m\<rparr>)"

definition sample_env :: env where
  "sample_env =
     \<lparr>ENDPOINT_SERVICE_URL = ''http://central-ledger'',
      includeCauseExtension = False,
      truncateExtensions = True,
      FSPIOP_SOURCE = ''fspiop-source'',
      FSPIOP_DESTINATION = ''fspiop-destination'',
      FSPIOP_SWITCH_value = ''switch'',
      THIRDPARTY_TRANSACTION_REQUEST_AUTHORIZATIONS_PUT_ERROR =
        ''/thirdpartyRequests/transactions/{{ID}}/authorizations/error'',
      getEndpoint = (\<lambda>serviceUrl participant endpointType.
         case participant of
           None \<Rightarrow> Inl (Error ''no participant'')
         | Some p \<Rightarrow> Inr (''http://'' @ p)),
      Mustache_render = (\<lambda>template view.
         Inr (substitute ''{{ID}}''
                (escapeHtml (case map_of view ''ID'' of None \<Rightarrow> [] | Some v \<Rightarrow> v))
                template)),
      sendRequest = (\<lambda>args. \<lparr>rejected = None, finishedSpan = False\<rparr>),
      ReformatFSPIOPError = wrap_error,
      toApiErrorObject = (\<lambda>f includeCause truncate.
         \<lparr>errorCode = apiErrorCode f, errorDescription = message f\<rparr>)\<rparr>"

definition env_forward_refused :: env where
  "env_forward_refused =
     sample_env\<lparr>sendRequest := (\<lambda>args.
        if sr_method args = POST
        then \<lparr>rejected = Some (Error ''connect ECONNREFUSED''), finishedSpan = False\<rparr>
        else \<lparr>rejected = None, finishedSpan = False\<rparr>)\<rparr>"

definition env_both_refused :: env where
  "env_both_refused =
     sample_env\<lparr>sendRequest := (\<lambda>args.
        if sr_method args = POST
        then \<lparr>rejected = Some (Error ''forward refused''), finishedSpan = False\<rparr>
        else \<lparr>rejected = Some (Error ''callback refused''), finishedSpan = False\<rparr>)\<rparr>"

definition sample_headers :: Dictionary where
  "sample_headers =
     [(''fspiop-source'', Some ''pispA''), (''fspiop-destination'', Some ''dfspB''),
      (''content-type'', Some ''application/json'')]"

definition sample_payload :: PostAuthorizationPayload where
  "sample_payload =
     \<lparr>challenge = ''c1'', payload_value = ''v1'', consentId = ''cs1'',
      sourceAccountId = ''acc1'', status = PENDING\<rparr>"

definition sample_path :: string where
  "sample_path = ''/thirdpartyRequests/transactions/{{ID}}/authorizations''"

definition sample_id :: string where
  "sample_id = ''a5bbfd51''"

definition inbound :: world where
  "inbound =
     \<lparr>spans = [\<lparr>spanName = ''inbound'', parentSpan = 0, isFinished = False, finishCalls = 0,
                 errorState = None\<rparr>],
      trace = []\<rparr>"

definition sample_error :: body where
  "sample_error = ErrorBody \<lparr>errorCode = ''2001'', errorDescription = ''forward refused''\<rparr>"

text \<open>The world after \<^verbatim>\<open>span?.getChild\<close> in each function, called with the inbound span.\<close>

definition child_world :: world where
  "child_world = snd (getChild 0 ''forwardPostAuthorization'' inbound)"

definition error_child_world :: world where
  "error_child_world = snd (getChild 0 ''forwardPostAuthorizationError'' inbound)"



text \<open>The forwarder when the \<^verbatim>\<open>POST\<close> is refused and the error callback gets through.\<close>

definition refused_try :: "(thrown + unit) \<times> world" where
  "refused_try = forwardPostAuthorization_try env_forward_refused sample_path sample_headers
                   sample_id sample_payload (Some 1) child_world"

definition refused_escalation :: "(thrown + unit) \<times> world" where
  "refused_escalation = forwardPostAuthorization_escalate env_forward_refused sample_headers
                          sample_id (Some 1) (Error ''connect ECONNREFUSED'') (snd refused_try)"

definition refused_run :: "(thrown + unit) \<times> world" where
  "refused_run = forwardPostAuthorization env_forward_refused sample_path sample_headers
                   sample_id sample_payload (Some (SpanRef 0)) inbound"

text \<open>The forwarder when the \<^verbatim>\<open>POST\<close> and the error callback are both refused.\<close>

definition both_try :: "(thrown + unit) \<times> world" where
  "both_try = forwardPostAuthorization_try env_both_refused sample_path sample_headers
                sample_id sample_payload (Some 1) child_world"

definition both_run :: "(thrown + unit) \<times> world" where
  "both_run = forwardPostAuthorization env_both_refused sample_path sample_headers
                sample_id sample_payload (Some (SpanRef 0)) inbound"

text \<open>The escalator alone when its \<^verbatim>\<open>PUT\<close> is refused.\<close>

definition callback_try :: "(thrown + unit) \<times> world" where
  "callback_try = forwardPostAuthorizationError_try env_both_refused sample_path sample_headers
                    sample_id sample_error (Some 1) error_child_world"

definition callback_run :: "(thrown + unit) \<times> world" where
  "callback_run = forwardPostAuthorizationError env_both_refused sample_path sample_headers
                    sample_id sample_error (Some (SpanRef 0)) inbound"

section \<open>Effects of the parts\<close>

lemma trace_emit [simp]: "trace (emit ev w) = trace w @ [ev]"
  by (simp add: emit_def)

lemma spans_emit [simp]: "spans (emit ev w) = spans w"
  by (simp add: emit_def)

lemma trace_finish [simp]: "trace (finish c w) = trace w"
  by (simp add: finish_def)

lemma trace_finishChildSpan [simp]: "trace (finishChildSpan f c w) = trace w"
  by (simp add: finishChildSpan_def)

lemma trace_finish_unless [simp]: "trace (finish_unless_finished cs w) = trace w"
  by (simp add: finish_unless_finished_def split: option.splits)

lemma trace_finishChildSpan_unless [simp]: "trace (finishChildSpan_unless_finished f cs w) = trace w"
  by (simp add: finishChildSpan_unless_finished_def split: option.splits)

lemma escalations_append [simp]: "escalations (xs @ ys) = escalations xs @ escalations ys"
  by (induction xs rule: escalations.induct) simp_all

lemma sends_append [simp]: "sends (xs @ ys) = sends xs @ sends ys"
  by (induction xs rule: sends.induct) simp_all

lemma resolutions_append [simp]: "resolutions (xs @ ys) = resolutions xs @ resolutions ys"
  by (induction xs rule: resolutions.induct) simp_all

lemma new_events_append [simp]: "trace w' = trace w @ evs \<Longrightarrow> new_events w w' = evs"
  by (simp add: new_events_def)

lemma call_sendRequest_effect:
  assumes "call_sendRequest e args w = (x, w')"
  shows "trace w' = trace w @ [SendRequest args]"
    and "length (spans w') = length (spans w)"
    and "sr_span args \<noteq> Some i \<Longrightarrow> spans w' ! i = spans w ! i"
    and "x = rejected (sendRequest e args)"
  using assms
  by (auto simp: call_sendRequest_def Let_def finish_def split: option.splits if_splits)

lemma esc_try_trace:
  assumes "forwardPostAuthorizationError_try e path headers tid payload childSpan w = (r, w')"
  shows "\<exists>evs. trace w' = trace w @ evs \<and> escalations evs = [] \<and> length (sends evs) \<le> 1"
  using assms
  by (auto simp: forwardPostAuthorizationError_try_def Let_def 
      split: sum.splits option.splits prod.splits dest!: call_sendRequest_effect(1))

lemma finish_spans:
  "length (spans (finish c w)) = length (spans w)"
  "i \<noteq> c \<Longrightarrow> spans (finish c w) ! i = spans w ! i"
  "c < length (spans w) \<Longrightarrow> spans (finish c w) ! c = (spans w ! c)\<lparr>isFinished := True, finishCalls := Suc (finishCalls (spans w ! c))\<rparr>"
  by (simp_all add: finish_def)

lemma finishChildSpan_spans:
  "length (spans (finishChildSpan f c w)) = length (spans w)"
  "i \<noteq> c \<Longrightarrow> spans (finishChildSpan f c w) ! i = spans w ! i"
  "c < length (spans w) \<Longrightarrow> spans (finishChildSpan f c w) ! c = (spans w ! c)\<lparr>isFinished := True, finishCalls := Suc (finishCalls (spans w ! c)), errorState := Some f\<rparr>"
  by (simp_all add: finishChildSpan_def finish_def)

lemma finish_unless_spans:
  "length (spans (finish_unless_finished cs w)) = length (spans w)"
  "cs \<noteq> Some i \<Longrightarrow> spans (finish_unless_finished cs w) ! i = spans w ! i"
  "cs = Some c \<Longrightarrow> c < length (spans w) \<Longrightarrow> counted (spans w ! c) \<Longrightarrow>
     finished_once (finish_unless_finished cs w) c
     \<and> spanName (spans (finish_unless_finished cs w) ! c) = spanName (spans w ! c)
     \<and> parentSpan (spans (finish_unless_finished cs w) ! c) = parentSpan (spans w ! c)"
  by (cases cs; auto simp: finish_unless_finished_def finish_spans counted_def finished_once_def split: if_splits)+

lemma finishChildSpan_unless_spans:
  "length (spans (finishChildSpan_unless_finished f cs w)) = length (spans w)"
  "cs \<noteq> Some i \<Longrightarrow> spans (finishChildSpan_unless_finished f cs w) ! i = spans w ! i"
  "cs = Some c \<Longrightarrow> c < length (spans w) \<Longrightarrow> counted (spans w ! c) \<Longrightarrow>
     finished_once (finishChildSpan_unless_finished f cs w) c
     \<and> (\<not> isFinished (spans w ! c) \<longrightarrow> errorState (spans (finishChildSpan_unless_finished f cs w) ! c) = Some f)
     \<and> spanName (spans (finishChildSpan_unless_finished f cs w) ! c) = spanName (spans w ! c)
     \<and> parentSpan (spans (finishChildSpan_unless_finished f cs w) ! c) = parentSpan (spans w ! c)"
  by (cases cs; auto simp: finishChildSpan_unless_finished_def finishChildSpan_spans counted_def finished_once_def split: if_splits)+

lemma call_sendRequest_span:
  assumes "call_sendRequest e args w = (x, w')" "sr_span args = Some c" "c < length (spans w)" "fresh (spans w ! c)"
  shows "counted (spans w' ! c)" "spanName (spans w' ! c) = spanName (spans w ! c)"
        "parentSpan (spans w' ! c) = parentSpan (spans w ! c)"
  using assms
  by (auto simp: call_sendRequest_def Let_def finish_spans counted_def fresh_def split: option.splits if_splits)

lemma fresh_counted: "fresh s \<Longrightarrow> counted s"
  by (simp add: fresh_def counted_def)

lemma esc_try_spans:
  assumes "forwardPostAuthorizationError_try e path headers tid payload childSpan w = (r, w')"
  shows "length (spans w') = length (spans w)"
    and "childSpan \<noteq> Some i \<Longrightarrow> spans w' ! i = spans w ! i"
    and "childSpan = Some c \<Longrightarrow> c < length (spans w) \<Longrightarrow> fresh (spans w ! c) \<Longrightarrow>
          counted (spans w' ! c) \<and> (r = Inr () \<longrightarrow> finished_once w' c)
          \<and> spanName (spans w' ! c) = spanName (spans w ! c)
          \<and> parentSpan (spans w' ! c) = parentSpan (spans w ! c)"
  using assms
  by (cases childSpan; auto simp: forwardPostAuthorizationError_try_def Let_def call_sendRequest_def
      finish_unless_finished_def finish_spans fresh_def counted_def finished_once_def
      split: sum.splits option.splits prod.splits if_splits)+

lemma optional_getChild_cases:
  assumes "span \<noteq> Some PlainObject"
  obtains (absent) "span = None" "optional_getChild span n w = Inr (None, w)"
  | (child) p where "span = Some (SpanRef p)"
      "optional_getChild span n w = Inr (Some (length (spans w)), snd (getChild p n w))"
  using assms by (cases "(span, n, w)" rule: optional_getChild.cases) (auto simp: getChild_def)

lemma getChild_world:
  "trace (snd (getChild p n w)) = trace w"
  "length (spans (snd (getChild p n w))) = Suc (length (spans w))"
  "i < length (spans w) \<Longrightarrow> spans (snd (getChild p n w)) ! i = spans w ! i"
  "fresh (spans (snd (getChild p n w)) ! length (spans w))"
  "spanName (spans (snd (getChild p n w)) ! length (spans w)) = n"
  "parentSpan (spans (snd (getChild p n w)) ! length (spans w)) = p"
  by (simp_all add: getChild_def fresh_def nth_append)

lemma escalator_unfold:
  assumes gc: "optional_getChild span ''forwardPostAuthorizationError'' w = Inr (childSpan, w0)"
      and tr: "forwardPostAuthorizationError_try e path headers tid payload childSpan w0 = (r0, w1)"
  shows "forwardPostAuthorizationError e path headers tid payload span w =
          (case r0 of
             Inr u \<Rightarrow> (Inr u, w1)
           | Inl err \<Rightarrow> forwardPostAuthorizationError_catch e childSpan err w1)"
  using gc tr by (simp add: forwardPostAuthorizationError_def split: sum.splits)

lemma esc_catch_effect:
  assumes "forwardPostAuthorizationError_catch e childSpan err w = (r, w')"
  shows "r = Inl (FSPIOP (ReformatFSPIOPError e err))"
    and "\<exists>l m. trace w' = trace w @ [Log l m]"
    and "length (spans w') = length (spans w)"
    and "childSpan \<noteq> Some i \<Longrightarrow> spans w' ! i = spans w ! i"
    and "childSpan = Some c \<Longrightarrow> c < length (spans w) \<Longrightarrow> counted (spans w ! c) \<Longrightarrow>
          finished_once w' c
          \<and> (\<not> isFinished (spans w ! c) \<longrightarrow> errorState (spans w' ! c) = Some (ReformatFSPIOPError e err))
          \<and> spanName (spans w' ! c) = spanName (spans w ! c)
          \<and> parentSpan (spans w' ! c) = parentSpan (spans w ! c)"
  using assms finishChildSpan_unless_spans(3)[of childSpan c "emit (Log Err ''authorizations::forwardPostAuthorizationError - Error forwarding thirdpartyTransaction authorization error to endpoint: '') w" "ReformatFSPIOPError e err"]
  by (auto simp: forwardPostAuthorizationError_catch_def Let_def finishChildSpan_unless_spans(1,2))

lemma escalator_effect:
  assumes run: "forwardPostAuthorizationError e path headers tid payload span w = (r, w')"
      and ok: "span \<noteq> Some PlainObject"
  shows "\<exists>evs. trace w' = trace w @ evs \<and> escalations evs = [] \<and> length (sends evs) \<le> 1"
    and "i < length (spans w) \<Longrightarrow> spans w' ! i = spans w ! i"
    and "span = None \<Longrightarrow> length (spans w') = length (spans w)"
    and "span = Some (SpanRef p) \<Longrightarrow>
           length (spans w') = Suc (length (spans w)) \<and> finished_once w' (length (spans w))
           \<and> spanName (spans w' ! length (spans w)) = ''forwardPostAuthorizationError''
           \<and> parentSpan (spans w' ! length (spans w)) = p"
    and "r = Inl x \<Longrightarrow> \<exists>err. x = FSPIOP (ReformatFSPIOPError e err)"
proof -
  obtain childSpan w0 where gc: "optional_getChild span ''forwardPostAuthorizationError'' w = Inr (childSpan, w0)"
    and w0: "trace w0 = trace w" "\<And>j. j < length (spans w) \<Longrightarrow> spans w0 ! j = spans w ! j"
    and cs: "span = None \<Longrightarrow> childSpan = None \<and> w0 = w"
       "\<And>q. span = Some (SpanRef q) \<Longrightarrow> childSpan = Some (length (spans w)) \<and> w0 = snd (getChild q ''forwardPostAuthorizationError'' w)"
    using ok by (cases rule: optional_getChild_cases[of span "''forwardPostAuthorizationError''" w])
       (auto simp: getChild_world)
  obtain r0 w1 where tr: "forwardPostAuthorizationError_try e path headers tid payload childSpan w0 = (r0, w1)"
    by fastforce
  note unf = escalator_unfold[OF gc tr, unfolded run, symmetric]
  from esc_try_trace[OF tr] obtain evs0 where evs0: "trace w1 = trace w @ evs0" "escalations evs0 = []" "length (sends evs0) \<le> 1"
    using w0(1) by auto
  show "\<exists>evs. trace w' = trace w @ evs \<and> escalations evs = [] \<and> length (sends evs) \<le> 1"
  proof (cases r0)
    case (Inr u) with unf evs0 show ?thesis by auto
  next
    case (Inl err)
    with unf have c: "forwardPostAuthorizationError_catch e childSpan err w1 = (r, w')" by simp
    from esc_catch_effect(2)[OF c] evs0 show ?thesis by auto
  qed
  show "r = Inl x \<Longrightarrow> \<exists>err. x = FSPIOP (ReformatFSPIOPError e err)"
    using unf by (cases r0) (auto dest: esc_catch_effect(1))
  show "i < length (spans w) \<Longrightarrow> spans w' ! i = spans w ! i"
  proof -
    assume i: "i < length (spans w)"
    have ne: "childSpan \<noteq> Some i"
    proof (cases span)
      case None with cs(1) show ?thesis by simp
    next
      case (Some sv) with ok cs(2) i show ?thesis by (cases sv) auto
    qed
    have "spans w1 ! i = spans w0 ! i" using esc_try_spans(2)[OF tr ne] .
    moreover have "spans w' ! i = spans w1 ! i"
      using unf ne by (cases r0) (auto dest: esc_catch_effect(4))
    ultimately show ?thesis using w0(2)[OF i] by simp
  qed
  show "span = None \<Longrightarrow> length (spans w') = length (spans w)"
    using unf cs(1) esc_try_spans(1)[OF tr] by (cases r0) (auto dest: esc_catch_effect(3))
  show "span = Some (SpanRef p) \<Longrightarrow>
           length (spans w') = Suc (length (spans w)) \<and> finished_once w' (length (spans w))
           \<and> spanName (spans w' ! length (spans w)) = ''forwardPostAuthorizationError''
           \<and> parentSpan (spans w' ! length (spans w)) = p"
  proof -
    assume sp: "span = Some (SpanRef p)"
    let ?c = "length (spans w)"
    from cs(2)[OF sp] have c: "childSpan = Some ?c" and w0': "w0 = snd (getChild p ''forwardPostAuthorizationError'' w)" by auto
    have len0: "length (spans w0) = Suc ?c" and fr: "fresh (spans w0 ! ?c)" 
      and nm: "spanName (spans w0 ! ?c) = ''forwardPostAuthorizationError''" and pa: "parentSpan (spans w0 ! ?c) = p"
      unfolding w0' by (simp_all add: getChild_world)
    have lt: "?c < length (spans w0)" using len0 by simp
    note t3 = esc_try_spans(3)[OF tr c lt fr] and t1 = esc_try_spans(1)[OF tr]
    show ?thesis
    proof (cases r0)
      case (Inr u) with unf t3 t1 len0 nm pa show ?thesis by auto
    next
      case (Inl err)
      with unf have ca: "forwardPostAuthorizationError_catch e childSpan err w1 = (r, w')" by simp
      have lt1: "?c < length (spans w1)" using t1 lt by simp
      from esc_catch_effect(5)[OF ca c lt1] esc_catch_effect(3)[OF ca] t3 t1 len0 nm pa
      show ?thesis by auto
    qed
  qed
qed

lemma fwd_try_trace:
  assumes "forwardPostAuthorization_try e path headers tid payload childSpan w = (r, w')"
  shows "\<exists>evs. trace w' = trace w @ evs \<and> escalations evs = [] \<and> length (sends evs) \<le> 1"
  using assms
  by (auto simp: forwardPostAuthorization_try_def Let_def 
      split: sum.splits option.splits prod.splits dest!: call_sendRequest_effect(1))

lemma fwd_try_spans:
  assumes "forwardPostAuthorization_try e path headers tid payload childSpan w = (r, w')"
  shows "length (spans w') = length (spans w)"
    and "childSpan \<noteq> Some i \<Longrightarrow> spans w' ! i = spans w ! i"
    and "childSpan = Some c \<Longrightarrow> c < length (spans w) \<Longrightarrow> fresh (spans w ! c) \<Longrightarrow>
          counted (spans w' ! c) \<and> (r = Inr () \<longrightarrow> finished_once w' c)
          \<and> spanName (spans w' ! c) = spanName (spans w ! c)
          \<and> parentSpan (spans w' ! c) = parentSpan (spans w ! c)"
  using assms
  by (cases childSpan; auto simp: forwardPostAuthorization_try_def Let_def call_sendRequest_def
      finish_unless_finished_def finish_spans fresh_def counted_def finished_once_def
      split: sum.splits option.splits prod.splits if_splits)+

lemma escalate_effect:
  assumes run: "forwardPostAuthorization_escalate e headers tid childSpan err w = (r, w')"
  shows "\<exists>l m evs. trace w' = trace w @ Log l m # Escalation (escalation_of e headers tid childSpan err) # evs
            \<and> escalations evs = [] \<and> length (sends evs) \<le> 1"
    and "i < length (spans w) \<Longrightarrow> spans w' ! i = spans w ! i"
    and "childSpan = None \<Longrightarrow> length (spans w') = length (spans w)"
    and "childSpan = Some c \<Longrightarrow>
           length (spans w') = Suc (length (spans w)) \<and> finished_once w' (length (spans w))
           \<and> spanName (spans w' ! length (spans w)) = ''forwardPostAuthorizationError''
           \<and> parentSpan (spans w' ! length (spans w)) = c"
    and "r = Inl x \<Longrightarrow> \<exists>err'. x = FSPIOP (ReformatFSPIOPError e err')"
proof -
  let ?w1 = "emit (Escalation (escalation_of e headers tid childSpan err))
               (emit (Log Err ''authorizations::forwardPostAuthorization - Error forwarding thirdpartyTransaction authorization to endpoint: '') w)"
  have run': "forwardPostAuthorizationError e (THIRDPARTY_TRANSACTION_REQUEST_AUTHORIZATIONS_PUT_ERROR e)
       (errorHeaders e headers) tid
       (ErrorBody (toApiErrorObject e (ReformatFSPIOPError e err) (includeCauseExtension e) (truncateExtensions e)))
       (map_option SpanRef childSpan) ?w1 = (r, w')"
    using run by (simp add: forwardPostAuthorization_escalate_def Let_def escalation_of_def)
  have ok: "map_option SpanRef childSpan \<noteq> Some PlainObject" by (cases childSpan) auto
  note eff = escalator_effect[OF run' ok]
  have sp: "spans ?w1 = spans w" and tr: "trace ?w1 = trace w @ [Log Err ''authorizations::forwardPostAuthorization - Error forwarding thirdpartyTransaction authorization to endpoint: '', Escalation (escalation_of e headers tid childSpan err)]"
    by simp_all
  from eff(1) show "\<exists>l m evs. trace w' = trace w @ Log l m # Escalation (escalation_of e headers tid childSpan err) # evs
            \<and> escalations evs = [] \<and> length (sends evs) \<le> 1"
    unfolding tr by auto
  show "i < length (spans w) \<Longrightarrow> spans w' ! i = spans w ! i" using eff(2)[of i] sp by simp
  show "childSpan = None \<Longrightarrow> length (spans w') = length (spans w)" using eff(3) sp by simp
  show "childSpan = Some c \<Longrightarrow>
           length (spans w') = Suc (length (spans w)) \<and> finished_once w' (length (spans w))
           \<and> spanName (spans w' ! length (spans w)) = ''forwardPostAuthorizationError''
           \<and> parentSpan (spans w' ! length (spans w)) = c"
    using eff(4)[of c] sp by simp
  show "r = Inl x \<Longrightarrow> \<exists>err'. x = FSPIOP (ReformatFSPIOPError e err')" using eff(5) by simp
qed

lemma forwarder_unfold:
  assumes gc: "optional_getChild span ''forwardPostAuthorization'' w = Inr (childSpan, w0)"
      and tr: "forwardPostAuthorization_try e path headers tid payload childSpan w0 = (r0, w1)"
  shows "forwardPostAuthorization e path headers tid payload span w =
          (case r0 of
             Inr u \<Rightarrow> (Inr u, w1)
           | Inl err \<Rightarrow> forwardPostAuthorization_catch e headers tid childSpan err w1)"
  using gc tr by (simp add: forwardPostAuthorization_def split: sum.splits)

lemma forwarder_catch_unfold:
  assumes "forwardPostAuthorization_escalate e headers tid childSpan err w = (r2, w2)"
  shows "forwardPostAuthorization_catch e headers tid childSpan err w =
          (case r2 of
             Inl escalationError \<Rightarrow> (Inl escalationError, w2)
           | Inr u \<Rightarrow> (Inl (FSPIOP (ReformatFSPIOPError e err)),
                        finishChildSpan_unless_finished (ReformatFSPIOPError e err) childSpan w2))"
  using assms by (simp add: forwardPostAuthorization_catch_def Let_def split: sum.splits)

lemma optional_getChild_Inr:
  assumes "optional_getChild span n w = Inr (childSpan, w0)"
  shows "trace w0 = trace w"
    and "i < length (spans w) \<Longrightarrow> spans w0 ! i = spans w ! i"
    and "childSpan = None \<Longrightarrow> w0 = w \<and> span = None"
    and "childSpan = Some c \<Longrightarrow> c = length (spans w) \<and> length (spans w0) = Suc c \<and> fresh (spans w0 ! c)
           \<and> spanName (spans w0 ! c) = n \<and> (\<exists>p. span = Some (SpanRef p) \<and> parentSpan (spans w0 ! c) = p)"
  using assms
  by (cases "(span, n, w)" rule: optional_getChild.cases; auto simp: getChild_def fresh_def nth_append)+

lemma esc_try_calls:
  assumes "forwardPostAuthorizationError_try e path headers tid payload childSpan w = (r, w')"
  shows "\<exists>evs. trace w' = trace w @ evs
           \<and> resolutions evs = [THIRDPARTY_CALLBACK_URL_TRANSACTION_REQUEST_AUTHORIZATIONS_PUT_ERROR]
           \<and> filter (\<lambda>a. sr_method a = POST) (sends evs) = []
           \<and> (\<forall>endpoint. getEndpoint e (ENDPOINT_SERVICE_URL e) (header_get headers (FSPIOP_DESTINATION e))
                  THIRDPARTY_CALLBACK_URL_TRANSACTION_REQUEST_AUTHORIZATIONS_PUT_ERROR = Inr endpoint
               \<longrightarrow> map sr_url (sends evs) = rendered e endpoint path tid)"
  using assms
  by (auto simp: forwardPostAuthorizationError_try_def Let_def 
      split: sum.splits option.splits prod.splits dest!: call_sendRequest_effect(1))


lemma forwarder_failure_unfold:
  assumes gc: "optional_getChild span ''forwardPostAuthorization'' w = Inr (childSpan, w0)"
      and tr: "forwardPostAuthorization_try e path headers tid payload childSpan w0 = (Inl err, w1)"
      and esc: "forwardPostAuthorization_escalate e headers tid childSpan err w1 = (r2, w2)"
  shows "forwardPostAuthorization e path headers tid payload span w =
          (case r2 of
             Inl escalationError \<Rightarrow> (Inl escalationError, w2)
           | Inr u \<Rightarrow> (Inl (FSPIOP (ReformatFSPIOPError e err)),
                        finishChildSpan_unless_finished (ReformatFSPIOPError e err) childSpan w2))"
  using forwarder_unfold[OF gc tr] forwarder_catch_unfold[OF esc] by simp

lemma forwarder_failure_trace:
  assumes gc: "optional_getChild span ''forwardPostAuthorization'' w = Inr (childSpan, w0)"
      and tr: "forwardPostAuthorization_try e path headers tid payload childSpan w0 = (Inl err, w1)"
      and run: "forwardPostAuthorization e path headers tid payload span w = (r, w')"
  shows "\<exists>evs0 l m evs1. trace w' = trace w @ evs0 @ Log l m # Escalation (escalation_of e headers tid childSpan err) # evs1
           \<and> trace w1 = trace w @ evs0
           \<and> escalations evs0 = [] \<and> escalations evs1 = []
           \<and> length (sends evs0) \<le> 1 \<and> length (sends evs1) \<le> 1"
proof -
  obtain r2 w2 where esc: "forwardPostAuthorization_escalate e headers tid childSpan err w1 = (r2, w2)"
    by fastforce
  have w': "trace w' = trace w2"
    using forwarder_failure_unfold[OF gc tr esc] run by (cases r2) auto
  from fwd_try_trace[OF tr] optional_getChild_Inr(1)[OF gc]
  obtain evs0 where e0: "trace w1 = trace w @ evs0" "escalations evs0 = []" "length (sends evs0) \<le> 1"
    by auto
  from escalate_effect(1)[OF esc]
  obtain l m evs1 where e1: "trace w2 = trace w1 @ Log l m # Escalation (escalation_of e headers tid childSpan err) # evs1"
    "escalations evs1 = []" "length (sends evs1) \<le> 1" by auto
  show ?thesis using w' e0 e1 by auto
qed

lemma forwarder_success_trace:
  assumes gc: "optional_getChild span ''forwardPostAuthorization'' w = Inr (childSpan, w0)"
      and tr: "forwardPostAuthorization_try e path headers tid payload childSpan w0 = (Inr u, w1)"
      and run: "forwardPostAuthorization e path headers tid payload span w = (r, w')"
  shows "r = Inr u \<and> w' = w1 \<and> (\<exists>evs0. trace w' = trace w @ evs0 \<and> escalations evs0 = [] \<and> length (sends evs0) \<le> 1)"
  using forwarder_unfold[OF gc tr] run fwd_try_trace[OF tr] optional_getChild_Inr(1)[OF gc] by auto

lemma escalator_calls:
  assumes run: "forwardPostAuthorizationError e path headers tid payload span w = (r, w')"
      and ok: "span \<noteq> Some PlainObject"
  shows "\<exists>evs. trace w' = trace w @ evs
           \<and> resolutions evs = [THIRDPARTY_CALLBACK_URL_TRANSACTION_REQUEST_AUTHORIZATIONS_PUT_ERROR]
           \<and> filter (\<lambda>a. sr_method a = POST) (sends evs) = []
           \<and> (\<forall>endpoint. getEndpoint e (ENDPOINT_SERVICE_URL e) (header_get headers (FSPIOP_DESTINATION e))
                  THIRDPARTY_CALLBACK_URL_TRANSACTION_REQUEST_AUTHORIZATIONS_PUT_ERROR = Inr endpoint
               \<longrightarrow> map sr_url (sends evs) = rendered e endpoint path tid)"
proof -
  obtain childSpan w0 where gc: "optional_getChild span ''forwardPostAuthorizationError'' w = Inr (childSpan, w0)"
    using ok by (cases rule: optional_getChild_cases[of span "''forwardPostAuthorizationError''" w]) auto
  obtain r0 w1 where tr: "forwardPostAuthorizationError_try e path headers tid payload childSpan w0 = (r0, w1)"
    by fastforce
  note unf = escalator_unfold[OF gc tr, unfolded run, symmetric]
  from esc_try_calls[OF tr] optional_getChild_Inr(1)[OF gc]
  obtain evs where evs: "trace w1 = trace w @ evs"
     "resolutions evs = [THIRDPARTY_CALLBACK_URL_TRANSACTION_REQUEST_AUTHORIZATIONS_PUT_ERROR]"
     "filter (\<lambda>a. sr_method a = POST) (sends evs) = []"
     "\<forall>endpoint. getEndpoint e (ENDPOINT_SERVICE_URL e) (header_get headers (FSPIOP_DESTINATION e))
                  THIRDPARTY_CALLBACK_URL_TRANSACTION_REQUEST_AUTHORIZATIONS_PUT_ERROR = Inr endpoint
               \<longrightarrow> map sr_url (sends evs) = rendered e endpoint path tid"
    by auto
  show ?thesis
  proof (cases r0)
    case (Inr u) with unf evs show ?thesis by auto
  next
    case (Inl err)
    with unf have c: "forwardPostAuthorizationError_catch e childSpan err w1 = (r, w')" by simp
    from esc_catch_effect(2)[OF c] obtain l m where "trace w' = trace w @ (evs @ [Log l m])"
      using evs(1) by auto
    with evs(2-) show ?thesis 
      by (intro exI[of _ "evs @ [Log l m]"]) simp
  qed
qed



lemma forwarder_failure_escalations:
  assumes gc: "optional_getChild span ''forwardPostAuthorization'' w = Inr (childSpan, w0)"
      and tr: "forwardPostAuthorization_try e path headers tid payload childSpan w0 = (Inl err, w1)"
      and run: "forwardPostAuthorization e path headers tid payload span w = (r, w')"
  shows "escalations (new_events w w') = [escalation_of e headers tid childSpan err]"
proof -
  from forwarder_failure_trace[OF gc tr run]
  obtain evs0 l m evs1 where
    "trace w' = trace w @ (evs0 @ Log l m # Escalation (escalation_of e headers tid childSpan err) # evs1)"
    "escalations evs0 = []" "escalations evs1 = []" by auto
  then show ?thesis by (simp add: new_events_def)
qed


lemma forwarder_sends_bound:
  "length (sends (new_events w (snd (forwardPostAuthorization e path headers tid payload span w)))) \<le> 2"
proof (cases "span = Some PlainObject")
  case True
  then show ?thesis by (simp add: forwardPostAuthorization_def new_events_def)
next
  case False
  obtain childSpan w0 where gc: "optional_getChild span ''forwardPostAuthorization'' w = Inr (childSpan, w0)"
    using False by (cases rule: optional_getChild_cases[of span "''forwardPostAuthorization''" w]) auto
  obtain r w' where run: "forwardPostAuthorization e path headers tid payload span w = (r, w')" by fastforce
  obtain r0 w1 where tr: "forwardPostAuthorization_try e path headers tid payload childSpan w0 = (r0, w1)"
    by fastforce
  show ?thesis
  proof (cases r0)
    case (Inr u)
    from forwarder_success_trace[OF gc tr[unfolded Inr] run] show ?thesis using run by (auto simp: new_events_def)
  next
    case (Inl err)
    from forwarder_failure_trace[OF gc tr[unfolded Inl] run]
    obtain evs0 l m evs1 where
      "trace w' = trace w @ (evs0 @ Log l m # Escalation (escalation_of e headers tid childSpan err) # evs1)"
      "length (sends evs0) \<le> 1" "length (sends evs1) \<le> 1" by auto
    then show ?thesis using run by (simp add: new_events_def)
  qed
qed

lemma forwarder_finish_calls:
  assumes run: "forwardPostAuthorization e path headers tid payload (Some (SpanRef p)) w = (r, w')"
  shows "finishCalls (spans w' ! length (spans w)) \<le> 1"
    and "r = Inr () \<Longrightarrow> finished_once w' (length (spans w))"
proof -
  let ?c = "length (spans w)"
  let ?w0 = "snd (getChild p ''forwardPostAuthorization'' w)"
  have gc: "optional_getChild (Some (SpanRef p)) ''forwardPostAuthorization'' w = Inr (Some ?c, ?w0)"
    by (simp add: getChild_def)
  have c: "Some ?c = Some ?c" by simp
  have len0: "length (spans ?w0) = Suc ?c" and fr: "fresh (spans ?w0 ! ?c)"
    by (simp_all add: getChild_world)
  have lt0: "?c < length (spans ?w0)" using len0 by simp
  obtain r0 w1 where tr: "forwardPostAuthorization_try e path headers tid payload (Some ?c) ?w0 = (r0, w1)"
    by fastforce
  from fwd_try_spans(3)[OF tr c lt0 fr] fwd_try_spans(1)[OF tr] len0
  have w1: "length (spans w1) = Suc ?c" "counted (spans w1 ! ?c)" "r0 = Inr () \<longrightarrow> finished_once w1 ?c" by auto
  have "finishCalls (spans w' ! ?c) \<le> 1 \<and> (r = Inr () \<longrightarrow> finished_once w' ?c)"
  proof (cases r0)
    case (Inr u)
    from forwarder_success_trace[OF gc tr[unfolded Inr] run] w1 Inr
    show ?thesis by (auto simp: finished_once_def)
  next
    case (Inl err)
    obtain r2 w2 where esc: "forwardPostAuthorization_escalate e headers tid (Some ?c) err w1 = (r2, w2)"
      by fastforce
    from escalate_effect(4)[OF esc c] escalate_effect(2)[OF esc, of ?c] w1
    have w2: "?c < length (spans w2)" "spans w2 ! ?c = spans w1 ! ?c" by auto
    note unf = forwarder_failure_unfold[OF gc tr[unfolded Inl] esc, unfolded run]
    show ?thesis
    proof (cases r2)
      case (Inl x)
      with unf w2 w1(2) show ?thesis by (auto simp: counted_def split: if_splits)
    next
      case (Inr u)
      with unf have "w' = finishChildSpan_unless_finished (ReformatFSPIOPError e err) (Some ?c) w2" "r \<noteq> Inr ()" by auto
      with finishChildSpan_unless_spans(3)[OF c w2(1), of "ReformatFSPIOPError e err"] w2(2) w1(2)
      show ?thesis by (simp add: finished_once_def)
    qed
  qed
  then show "finishCalls (spans w' ! length (spans w)) \<le> 1"
    and "r = Inr () \<Longrightarrow> finished_once w' (length (spans w))" by auto
qed




section \<open>The sample runs, evaluated\<close>

lemmas run_defs = forwardPostAuthorization_def forwardPostAuthorization_try_def
  forwardPostAuthorization_catch_def forwardPostAuthorization_escalate_def
  forwardPostAuthorizationError_def forwardPostAuthorizationError_try_def
  forwardPostAuthorizationError_catch_def call_sendRequest_def errorHeaders_def
  header_get_def emit_def getChild_def finish_def finishChildSpan_def
  finish_unless_finished_def finishChildSpan_unless_finished_def
  sample_env_def env_forward_refused_def env_both_refused_def sample_headers_def
  sample_payload_def sample_path_def sample_id_def sample_error_def inbound_def
  wrap_error_def child_world_def error_child_world_def escapeHtml_def escape_char_def
  Let_def

lemma inbound_child:
  "optional_getChild (Some (SpanRef 0)) ''forwardPostAuthorization'' inbound = Inr (Some 1, child_world)"
  by (simp add: getChild_def inbound_def child_world_def)

lemma inbound_error_child:
  "optional_getChild (Some (SpanRef 0)) ''forwardPostAuthorizationError'' inbound
     = Inr (Some 1, error_child_world)"
  by (simp add: getChild_def inbound_def error_child_world_def)


lemma refused_try_result: "fst refused_try = Inl (Error ''connect ECONNREFUSED'')"
  unfolding refused_try_def by (simp add: run_defs)

lemma refused_escalation_result: "fst refused_escalation = Inr ()"
  unfolding refused_escalation_def refused_try_def by (simp add: run_defs)

lemma refused_run_result:
  "refused_run =
     (Inl (FSPIOP
             \<lparr>apiErrorCode = ''2001'', message = ''connect ECONNREFUSED''\<rparr>),
       \<lparr>spans =
          [\<lparr>spanName = ''inbound'', parentSpan = 0, isFinished = False,
              finishCalls = 0, errorState = None\<rparr>,
           \<lparr>spanName = ''forwardPostAuthorization'', parentSpan = 0,
              isFinished = True, finishCalls = 1,
              errorState =
                Some
                 \<lparr>apiErrorCode = ''2001'', message = ''connect ECONNREFUSED''\<rparr>\<rparr>,
           \<lparr>spanName = ''forwardPostAuthorizationError'', parentSpan = 1,
              isFinished = True, finishCalls = 1, errorState = None\<rparr>],
          trace =
            [GetEndpoint ''http://central-ledger'' (Some ''dfspB'')
              THIRDPARTY_TRANSACTIONS_AUTHORIZATIONS_POST,
             Log Info
              ''authorizations::forwardPostAuthorization - Resolved destination party '',
             Log Info
              ''authorizations::forwardPostAuthorization - Forwarding authorization to endpoint: '',
             SendRequest
              \<lparr>sr_url =
                 ''http://dfspB/thirdpartyRequests/transactions/a5bbfd51/authorizations'',
                 sr_headers =
                   [(''fspiop-source'', Some ''pispA''),
                    (''fspiop-destination'', Some ''dfspB''),
                    (''content-type'', Some ''application/json'')],
                 sr_source = Some ''pispA'', sr_destination = Some ''dfspB'',
                 sr_method = POST,
                 sr_payload =
                   AuthorizationBody
                    \<lparr>challenge = ''c1'', payload_value = ''v1'',
                       consentId = ''cs1'', sourceAccountId = ''acc1'',
                       status = PENDING\<rparr>,
                 sr_responseType = JSON, sr_span = Some 1\<rparr>,
             Log Err
              ''authorizations::forwardPostAuthorization - Error forwarding thirdpartyTransaction authorization to endpoint: '',
             Escalation
              \<lparr>esc_path =
                 ''/thirdpartyRequests/transactions/{{ID}}/authorizations/error'',
                 esc_headers =
                   [(''fspiop-source'', Some ''switch''),
                    (''fspiop-destination'', Some ''pispA''),
                    (''content-type'', Some ''application/json'')],
                 esc_transactionRequestId = ''a5bbfd51'',
                 esc_payload =
                   ErrorBody
                    \<lparr>errorCode = ''2001'',
                       errorDescription = ''connect ECONNREFUSED''\<rparr>,
                 esc_span = Some 1\<rparr>,
             GetEndpoint ''http://central-ledger'' (Some ''pispA'')
              THIRDPARTY_CALLBACK_URL_TRANSACTION_REQUEST_AUTHORIZATIONS_PUT_ERROR,
             Log Info
              ''authorizations::forwardPostAuthorizationError - Resolved destinationDfsp endpoint: '',
             Log Info
              ''authorizations::forwardPostAuthorizationError - Forwarding thirdpartyTransaction authorization error callback to endpoint: '',
             SendRequest
              \<lparr>sr_url =
                 ''http://pispA/thirdpartyRequests/transactions/a5bbfd51/authorizations/error'',
                 sr_headers =
                   [(''fspiop-source'', Some ''switch''),
                    (''fspiop-destination'', Some ''pispA''),
                    (''content-type'', Some ''application/json'')],
                 sr_source = Some ''switch'', sr_destination = Some ''pispA'',
                 sr_method = PUT,
                 sr_payload =
                   ErrorBody
                    \<lparr>errorCode = ''2001'',
                       errorDescription = ''connect ECONNREFUSED''\<rparr>,
                 sr_responseType = JSON, sr_span = Some 2\<rparr>,
             Log Info
              ''authorizations::forwardPostAuthorization - Forwarded thirdpartyTransaction authorization error callback: '']\<rparr>)"
  unfolding refused_run_def by (simp add: run_defs)

lemma both_try_result: "fst both_try = Inl (Error ''forward refused'')"
  unfolding both_try_def by (simp add: run_defs)

lemma both_run_result:
  "both_run =
     (Inl (FSPIOP \<lparr>apiErrorCode = ''2001'', message = ''callback refused''\<rparr>),
       \<lparr>spans =
          [\<lparr>spanName = ''inbound'', parentSpan = 0, isFinished = False,
              finishCalls = 0, errorState = None\<rparr>,
           \<lparr>spanName = ''forwardPostAuthorization'', parentSpan = 0,
              isFinished = False, finishCalls = 0, errorState = None\<rparr>,
           \<lparr>spanName = ''forwardPostAuthorizationError'', parentSpan = 1,
              isFinished = True, finishCalls = 1,
              errorState =
                Some \<lparr>apiErrorCode = ''2001'', message = ''callback refused''\<rparr>\<rparr>],
          trace =
            [GetEndpoint ''http://central-ledger'' (Some ''dfspB'')
              THIRDPARTY_TRANSACTIONS_AUTHORIZATIONS_POST,
             Log Info
              ''authorizations::forwardPostAuthorization - Resolved destination party '',
             Log Info
              ''authorizations::forwardPostAuthorization - Forwarding authorization to endpoint: '',
             SendRequest
              \<lparr>sr_url =
                 ''http://dfspB/thirdpartyRequests/transactions/a5bbfd51/authorizations'',
                 sr_headers =
                   [(''fspiop-source'', Some ''pispA''),
                    (''fspiop-destination'', Some ''dfspB''),
                    (''content-type'', Some ''application/json'')],
                 sr_source = Some ''pispA'', sr_destination = Some ''dfspB'',
                 sr_method = POST,
                 sr_payload =
                   AuthorizationBody
                    \<lparr>challenge = ''c1'', payload_value = ''v1'',
                       consentId = ''cs1'', sourceAccountId = ''acc1'',
                       status = PENDING\<rparr>,
                 sr_responseType = JSON, sr_span = Some 1\<rparr>,
             Log Err
              ''authorizations::forwardPostAuthorization - Error forwarding thirdpartyTransaction authorization to endpoint: '',
             Escalation
              \<lparr>esc_path =
                 ''/thirdpartyRequests/transactions/{{ID}}/authorizations/error'',
                 esc_headers =
                   [(''fspiop-source'', Some ''switch''),
                    (''fspiop-destination'', Some ''pispA''),
                    (''content-type'', Some ''application/json'')],
                 esc_transactionRequestId = ''a5bbfd51'',
                 esc_payload =
                   ErrorBody
                    \<lparr>errorCode = ''2001'',
                       errorDescription = ''forward refused''\<rparr>,
                 esc_span = Some 1\<rparr>,
             GetEndpoint ''http://central-ledger'' (Some ''pispA'')
              THIRDPARTY_CALLBACK_URL_TRANSACTION_REQUEST_AUTHORIZATIONS_PUT_ERROR,
             Log Info
              ''authorizations::forwardPostAuthorizationError - Resolved destinationDfsp endpoint: '',
             Log Info
              ''authorizations::forwardPostAuthorizationError - Forwarding thirdpartyTransaction authorization error callback to endpoint: '',
             SendRequest
              \<lparr>sr_url =
                 ''http://pispA/thirdpartyRequests/transactions/a5bbfd51/authorizations/error'',
                 sr_headers =
                   [(''fspiop-source'', Some ''switch''),
                    (''fspiop-destination'', Some ''pispA''),
                    (''content-type'', Some ''application/json'')],
                 sr_source = Some ''switch'', sr_destination = Some ''pispA'',
                 sr_method = PUT,
                 sr_payload =
                   ErrorBody
                    \<lparr>errorCode = ''2001'',
                       errorDescription = ''forward refused''\<rparr>,
                 sr_responseType = JSON, sr_span = Some 2\<rparr>,
             Log Err
              ''authorizations::forwardPostAuthorizationError - Error forwarding thirdpartyTransaction authorization error to endpoint: '']\<rparr>)"
  unfolding both_run_def by (simp add: run_defs)

lemma callback_try_result: "fst callback_try = Inl (Error ''callback refused'')"
  unfolding callback_try_def by (simp add: run_defs)

lemma callback_run_result:
  "callback_run =
     (Inl (FSPIOP \<lparr>apiErrorCode = ''2001'', message = ''callback refused''\<rparr>),
       \<lparr>spans =
          [\<lparr>spanName = ''inbound'', parentSpan = 0, isFinished = False,
              finishCalls = 0, errorState = None\<rparr>,
           \<lparr>spanName = ''forwardPostAuthorizationError'', parentSpan = 0,
              isFinished = True, finishCalls = 1,
              errorState =
                Some \<lparr>apiErrorCode = ''2001'', message = ''callback refused''\<rparr>\<rparr>],
          trace =
            [GetEndpoint ''http://central-ledger'' (Some ''dfspB'')
              THIRDPARTY_CALLBACK_URL_TRANSACTION_REQUEST_AUTHORIZATIONS_PUT_ERROR,
             Log Info
              ''authorizations::forwardPostAuthorizationError - Resolved destinationDfsp endpoint: '',
             Log Info
              ''authorizations::forwardPostAuthorizationError - Forwarding thirdpartyTransaction authorization error callback to endpoint: '',
             SendRequest
              \<lparr>sr_url =
                 ''http://dfspB/thirdpartyRequests/transactions/a5bbfd51/authorizations'',
                 sr_headers =
                   [(''fspiop-source'', Some ''pispA''),
                    (''fspiop-destination'', Some ''dfspB''),
                    (''content-type'', Some ''application/json'')],
                 sr_source = Some ''pispA'', sr_destination = Some ''dfspB'',
                 sr_method = PUT,
                 sr_payload =
                   ErrorBody
                    \<lparr>errorCode = ''2001'',
                       errorDescription = ''forward refused''\<rparr>,
                 sr_responseType = JSON, sr_span = Some 1\<rparr>,
             Log Err
              ''authorizations::forwardPostAuthorizationError - Error forwarding thirdpartyTransaction authorization error to endpoint: '']\<rparr>)"
  unfolding callback_run_def by (simp add: run_defs)





section \<open>The claims\<close>

text \<open>
  Claim C1, as amended. Let the \<^verbatim>\<open>try\<close> block of the forwarder fail with \<open>err\<close>. When the
  call of the escalator resolves, the forwarder rejects with the original failure,
  normalised, and its child span has been finished by exactly one call, with that error as
  its status unless the span was finished already. When the call of the escalator rejects,
  the forwarder rejects with the escalator's rejection, a normalised error of the escalator,
  in place of the original failure. The claim as stated, that the caller sees the original
  failure also when the escalation fails, does not hold: in the sample run where both
  requests are refused the caller sees the failure of the callback.
\<close>

theorem forwarder_outcome_after_escalation:
  assumes gc: "optional_getChild span ''forwardPostAuthorization'' w = Inr (childSpan, w0)"
      and tr: "forwardPostAuthorization_try e path headers transactionRequestId payload childSpan w0 = (Inl err, w1)"
      and run: "forwardPostAuthorization e path headers transactionRequestId payload span w = (r, w')"
  shows "case forwardPostAuthorization_escalate e headers transactionRequestId childSpan err w1 of
           (Inr u, w2) \<Rightarrow>
             r = Inl (FSPIOP (ReformatFSPIOPError e err))
             \<and> (\<forall>c. childSpan = Some c \<longrightarrow>
                    finished_once w' c
                    \<and> (\<not> isFinished (spans w1 ! c) \<longrightarrow>
                          errorState (spans w' ! c) = Some (ReformatFSPIOPError e err)))
         | (Inl escalationError, w2) \<Rightarrow>
             r = Inl escalationError \<and> w' = w2
             \<and> (\<exists>err'. escalationError = FSPIOP (ReformatFSPIOPError e err'))"
proof (cases "forwardPostAuthorization_escalate e headers transactionRequestId childSpan err w1")
  case (Pair r2 w2)
  note unf = forwarder_failure_unfold[OF gc tr Pair, unfolded run]
  show ?thesis
  proof (cases r2)
    case (Inl x)
    with unf escalate_effect(5)[OF Pair] Pair show ?thesis by auto
  next
    case (Inr u)
    with unf have r: "r = Inl (FSPIOP (ReformatFSPIOPError e err))"
      and w': "w' = finishChildSpan_unless_finished (ReformatFSPIOPError e err) childSpan w2" by auto
    have "finished_once w' c \<and> (\<not> isFinished (spans w1 ! c) \<longrightarrow>
                          errorState (spans w' ! c) = Some (ReformatFSPIOPError e err))"
      if c: "childSpan = Some c" for c
    proof -
      from optional_getChild_Inr(4)[OF gc c] have lt0: "c < length (spans w0)" and fr: "fresh (spans w0 ! c)" by auto
      from fwd_try_spans(3)[OF tr c lt0 fr] fwd_try_spans(1)[OF tr]
      have cnt: "counted (spans w1 ! c)" and lt1: "c < length (spans w1)" using lt0 by auto
      have same: "spans w2 ! c = spans w1 ! c" using escalate_effect(2)[OF Pair lt1] .
      have lt2: "c < length (spans w2)" using escalate_effect(4)[OF Pair c] lt1 by simp
      from finishChildSpan_unless_spans(3)[OF c lt2, of "ReformatFSPIOPError e err"] cnt same
      show ?thesis unfolding w' by simp
    qed
    with r Pair Inr show ?thesis by simp
  qed
qed

theorem forwarder_outcome_after_escalation_witness:
  "optional_getChild (Some (SpanRef 0)) ''forwardPostAuthorization'' inbound = Inr (Some 1, child_world)
   \<and> fst refused_try = Inl (Error ''connect ECONNREFUSED'')
   \<and> fst refused_escalation = Inr ()
   \<and> fst refused_run = Inl (FSPIOP \<lparr>apiErrorCode = ''2001'', message = ''connect ECONNREFUSED''\<rparr>)
   \<and> finished_once (snd refused_run) 1
   \<and> errorState (spans (snd refused_run) ! 1)
   = Some \<lparr>apiErrorCode = ''2001'', message = ''connect ECONNREFUSED''\<rparr>"
proof -
  have tr: "forwardPostAuthorization_try env_forward_refused sample_path sample_headers sample_id
              sample_payload (Some 1) child_world
            = (Inl (Error ''connect ECONNREFUSED''), snd refused_try)"
    using refused_try_result by (simp add: refused_try_def prod_eq_iff)
  have run: "forwardPostAuthorization env_forward_refused sample_path sample_headers sample_id
               sample_payload (Some (SpanRef 0)) inbound = (fst refused_run, snd refused_run)"
    by (simp add: refused_run_def)
  note th = forwarder_outcome_after_escalation[OF inbound_child tr run]
  have c1: "optional_getChild (Some (SpanRef 0)) ''forwardPostAuthorization'' inbound = Inr (Some 1, child_world)"
    by (rule inbound_child)
  have c2: "fst refused_try = Inl (Error ''connect ECONNREFUSED'')"
    by (rule refused_try_result)
  have c3: "fst refused_escalation = Inr ()"
    by (rule refused_escalation_result)
  have c4: "fst refused_run = Inl (FSPIOP \<lparr>apiErrorCode = ''2001'', message = ''connect ECONNREFUSED''\<rparr>)"
    by (simp add: refused_run_result)
  have c5: "finished_once (snd refused_run) 1"
    by (simp add: refused_run_result finished_once_def)
  have c6: "errorState (spans (snd refused_run) ! 1)
       = Some \<lparr>apiErrorCode = ''2001'', message = ''connect ECONNREFUSED''\<rparr>"
    by (simp add: refused_run_result)
  from th c1 c2 c3 c4 c5 c6
  show ?thesis by - (intro conjI; assumption)
qed

theorem forwarder_reraises_escalation_failure:
  "fst both_try = Inl (Error ''forward refused'')
   \<and> fst both_run = Inl (FSPIOP \<lparr>apiErrorCode = ''2001'', message = ''callback refused''\<rparr>)
   \<and> fst both_run \<noteq> Inl (FSPIOP (ReformatFSPIOPError env_both_refused (Error ''forward refused'')))
   \<and> isFinished (spans (snd both_run) ! 1) = False"
proof -
  have c1: "fst both_try = Inl (Error ''forward refused'')"
    by (rule both_try_result)
  have c2: "fst both_run = Inl (FSPIOP \<lparr>apiErrorCode = ''2001'', message = ''callback refused''\<rparr>)"
    by (simp add: both_run_result)
  have c3: "fst both_run \<noteq> Inl (FSPIOP (ReformatFSPIOPError env_both_refused (Error ''forward refused'')))"
    by (simp add: both_run_result env_both_refused_def sample_env_def wrap_error_def)
  have c4: "isFinished (spans (snd both_run) ! 1) = False"
    by (simp add: both_run_result)
  from c1 c2 c3 c4
  show ?thesis by - (intro conjI; assumption)
qed

text \<open>
  Claim C2. The child span of either function is to be finished exactly once on every exit.
  The forwarder misses one exit: when the awaited call of the escalator rejects, the guarded
  finish after it is skipped. In the sample run where both requests are refused, the
  forwarder's child span ends unfinished, with no call of \<^verbatim>\<open>finish\<close>, while the span of the
  escalator was finished once.
\<close>

theorem forwarder_span_left_open:
  "fst both_try = Inl (Error ''forward refused'')
   \<and> spanName (spans (snd both_run) ! 1) = ''forwardPostAuthorization''
   \<and> isFinished (spans (snd both_run) ! 1) = False
   \<and> finishCalls (spans (snd both_run) ! 1) = 0
   \<and> finished_once (snd both_run) 2"
proof -
  have c1: "fst both_try = Inl (Error ''forward refused'')"
    by (rule both_try_result)
  have c2: "spanName (spans (snd both_run) ! 1) = ''forwardPostAuthorization''"
    by (simp add: both_run_result)
  have c3: "isFinished (spans (snd both_run) ! 1) = False"
    by (simp add: both_run_result)
  have c4: "finishCalls (spans (snd both_run) ! 1) = 0"
    by (simp add: both_run_result)
  have c5: "finished_once (snd both_run) 2"
    by (simp add: both_run_result finished_once_def)
  from c1 c2 c3 c4 c5
  show ?thesis by - (intro conjI; assumption)
qed








text \<open>
  Claim C6. When the \<^verbatim>\<open>try\<close> block of the escalator fails with \<open>err\<close>, the escalator rejects
  with \<open>err\<close> normalised, its child span has been finished by exactly one call (with that
  error as its status unless the span was finished already), and the run holds no call of the
  escalator, one endpoint resolution and at most one request. A run of the forwarder sends
  at most two requests.
\<close>

theorem escalator_failure_is_final:
  assumes gc: "optional_getChild span ''forwardPostAuthorizationError'' w = Inr (childSpan, w0)"
      and tr: "forwardPostAuthorizationError_try e path headers transactionRequestId errorPayload childSpan w0 = (Inl err, w1)"
      and run: "forwardPostAuthorizationError e path headers transactionRequestId errorPayload span w = (r, w')"
  shows "r = Inl (FSPIOP (ReformatFSPIOPError e err))
       \<and> (\<forall>c. childSpan = Some c \<longrightarrow>
              finished_once w' c
              \<and> (\<not> isFinished (spans w1 ! c) \<longrightarrow> errorState (spans w' ! c) = Some (ReformatFSPIOPError e err)))
       \<and> escalations (new_events w w') = []
       \<and> resolutions (new_events w w') = [THIRDPARTY_CALLBACK_URL_TRANSACTION_REQUEST_AUTHORIZATIONS_PUT_ERROR]
       \<and> length (sends (new_events w w')) \<le> 1
       \<and> length (sends (new_events v (snd (forwardPostAuthorization e path' headers' transactionRequestId' payload' span' v)))) \<le> 2"
proof -
  have ok: "span \<noteq> Some PlainObject" using gc by auto
  from escalator_unfold[OF gc tr] run
  have ca: "forwardPostAuthorizationError_catch e childSpan err w1 = (r, w')" by simp
  have r: "r = Inl (FSPIOP (ReformatFSPIOPError e err))" using esc_catch_effect(1)[OF ca] .
  have sp: "finished_once w' c \<and> (\<not> isFinished (spans w1 ! c) \<longrightarrow> errorState (spans w' ! c) = Some (ReformatFSPIOPError e err))"
    if c: "childSpan = Some c" for c
  proof -
    from optional_getChild_Inr(4)[OF gc c] have lt0: "c < length (spans w0)" and fr: "fresh (spans w0 ! c)" by auto
    from esc_try_spans(3)[OF tr c lt0 fr] esc_try_spans(1)[OF tr]
    have cnt: "counted (spans w1 ! c)" and lt1: "c < length (spans w1)" using lt0 by auto
    from esc_catch_effect(5)[OF ca c lt1 cnt] show ?thesis by simp
  qed
  from escalator_effect(1)[OF run ok] obtain evs where evs: "trace w' = trace w @ evs" "escalations evs = []" "length (sends evs) \<le> 1"
    by auto
  from escalator_calls[OF run ok] obtain evs' where evs': "trace w' = trace w @ evs'"
      "resolutions evs' = [THIRDPARTY_CALLBACK_URL_TRANSACTION_REQUEST_AUTHORIZATIONS_PUT_ERROR]" by auto
  have ne: "new_events w w' = evs" "new_events w w' = evs'" using evs(1) evs'(1) by (simp_all add: new_events_def)
  show ?thesis using r sp evs(2,3) evs'(2) ne forwarder_sends_bound[of v e path' headers' transactionRequestId' payload' span'] by simp
qed

theorem escalator_failure_is_final_witness:
  "optional_getChild (Some (SpanRef 0)) ''forwardPostAuthorizationError'' inbound
   = Inr (Some 1, error_child_world)
   \<and> fst callback_try = Inl (Error ''callback refused'')
   \<and> fst callback_run = Inl (FSPIOP \<lparr>apiErrorCode = ''2001'', message = ''callback refused''\<rparr>)
   \<and> finished_once (snd callback_run) 1
   \<and> errorState (spans (snd callback_run) ! 1)
   = Some \<lparr>apiErrorCode = ''2001'', message = ''callback refused''\<rparr>
   \<and> escalations (new_events inbound (snd callback_run)) = []
   \<and> length (sends (new_events inbound (snd callback_run))) = 1
   \<and> length (sends (new_events inbound (snd both_run))) = 2"
proof -
  have tr: "forwardPostAuthorizationError_try env_both_refused sample_path sample_headers sample_id
              sample_error (Some 1) error_child_world
            = (Inl (Error ''callback refused''), snd callback_try)"
    using callback_try_result by (simp add: callback_try_def prod_eq_iff)
  have run: "forwardPostAuthorizationError env_both_refused sample_path sample_headers sample_id
               sample_error (Some (SpanRef 0)) inbound = (fst callback_run, snd callback_run)"
    by (simp add: callback_run_def)
  note th = escalator_failure_is_final[OF inbound_error_child tr run,
              of inbound sample_path sample_headers sample_id sample_payload "Some (SpanRef 0)"]
  have c1: "optional_getChild (Some (SpanRef 0)) ''forwardPostAuthorizationError'' inbound
       = Inr (Some 1, error_child_world)"
    by (rule inbound_error_child)
  have c2: "fst callback_try = Inl (Error ''callback refused'')"
    by (rule callback_try_result)
  have c3: "fst callback_run = Inl (FSPIOP \<lparr>apiErrorCode = ''2001'', message = ''callback refused''\<rparr>)"
    by (simp add: callback_run_result)
  have c4: "finished_once (snd callback_run) 1"
    by (simp add: callback_run_result finished_once_def)
  have c5: "errorState (spans (snd callback_run) ! 1)
       = Some \<lparr>apiErrorCode = ''2001'', message = ''callback refused''\<rparr>"
    by (simp add: callback_run_result)
  have c6: "escalations (new_events inbound (snd callback_run)) = []"
    by (simp add: callback_run_result new_events_def inbound_def)
  have c7: "length (sends (new_events inbound (snd callback_run))) = 1"
    by (simp add: callback_run_result new_events_def inbound_def)
  have c8: "length (sends (new_events inbound (snd both_run))) = 2"
    by (simp add: both_run_result new_events_def inbound_def)
  from th c1 c2 c3 c4 c5 c6 c7 c8
  show ?thesis by - (intro conjI; assumption)
qed

text \<open>
  Claim C7. Given an object without \<^verbatim>\<open>getChild\<close> as span, each function rejects with the
  \<^verbatim>\<open>TypeError\<close> itself, not an \<^verbatim>\<open>FSPIOPError\<close>, and leaves the world as it was: no endpoint
  resolution, no request, no call of the escalator, no span.
\<close>

theorem malformed_span_rejects_before_try:
  "forwardPostAuthorization e path headers transactionRequestId payload (Some PlainObject) w
     = (Inl (TypeError ''span.getChild is not a function''), w)
   \<and> forwardPostAuthorizationError e path' headers' transactionRequestId' errorPayload (Some PlainObject) w
     = (Inl (TypeError ''span.getChild is not a function''), w)"
  by (simp add: forwardPostAuthorization_def forwardPostAuthorizationError_def)




text \<open>
  Claim C10. When the forwarder is given a span \<open>p\<close> and its \<^verbatim>\<open>try\<close> block fails, the span
  argument of the call of the escalator is the forwarder's child span, named
  \<^verbatim>\<open>forwardPostAuthorization\<close> and created under \<open>p\<close>; the escalator's span, named
  \<^verbatim>\<open>forwardPostAuthorizationError\<close>, is created under that child.
\<close>

theorem escalation_span_is_grandchild:
  assumes tr: "forwardPostAuthorization_try e path headers transactionRequestId payload (Some (length (spans w)))
                 (snd (getChild p ''forwardPostAuthorization'' w)) = (Inl err, w1)"
      and run: "forwardPostAuthorization e path headers transactionRequestId payload (Some (SpanRef p)) w = (r, w')"
  shows "map esc_span (escalations (new_events w w')) = [Some (length (spans w))]
       \<and> length (spans w') = length (spans w) + 2
       \<and> spanName (spans w' ! length (spans w)) = ''forwardPostAuthorization''
       \<and> parentSpan (spans w' ! length (spans w)) = p
       \<and> spanName (spans w' ! Suc (length (spans w))) = ''forwardPostAuthorizationError''
       \<and> parentSpan (spans w' ! Suc (length (spans w))) = length (spans w)"
proof -
  let ?c = "length (spans w)"
  let ?w0 = "snd (getChild p ''forwardPostAuthorization'' w)"
  have gc: "optional_getChild (Some (SpanRef p)) ''forwardPostAuthorization'' w = Inr (Some ?c, ?w0)"
    by (simp add: getChild_def)
  have c: "Some ?c = Some ?c" by simp
  have len0: "length (spans ?w0) = Suc ?c" and fr: "fresh (spans ?w0 ! ?c)"
    and nm: "spanName (spans ?w0 ! ?c) = ''forwardPostAuthorization''" and pa: "parentSpan (spans ?w0 ! ?c) = p"
    by (simp_all add: getChild_world)
  have lt0: "?c < length (spans ?w0)" using len0 by simp
  from fwd_try_spans(3)[OF tr c lt0 fr] fwd_try_spans(1)[OF tr] nm pa len0
  have w1: "length (spans w1) = Suc ?c" "spanName (spans w1 ! ?c) = ''forwardPostAuthorization''"
    "parentSpan (spans w1 ! ?c) = p" by auto
  obtain r2 w2 where esc: "forwardPostAuthorization_escalate e headers transactionRequestId (Some ?c) err w1 = (r2, w2)"
    by fastforce
  from escalate_effect(4)[OF esc c] escalate_effect(2)[OF esc, of ?c] w1
  have w2: "length (spans w2) = ?c + 2" "spans w2 ! ?c = spans w1 ! ?c"
    "spanName (spans w2 ! Suc ?c) = ''forwardPostAuthorizationError''" "parentSpan (spans w2 ! Suc ?c) = ?c"
    by auto
  have w': "w' = (case r2 of Inl x \<Rightarrow> w2 | Inr u \<Rightarrow> finishChildSpan_unless_finished (ReformatFSPIOPError e err) (Some ?c) w2)"
    using forwarder_failure_unfold[OF gc tr esc] run by (cases r2) auto
  have sp: "length (spans w') = ?c + 2
       \<and> spanName (spans w' ! ?c) = ''forwardPostAuthorization''
       \<and> parentSpan (spans w' ! ?c) = p
       \<and> spanName (spans w' ! Suc ?c) = ''forwardPostAuthorizationError''
       \<and> parentSpan (spans w' ! Suc ?c) = ?c"
  proof (cases r2)
    case (Inl x) with w' w1 w2 show ?thesis by simp
  next
    case (Inr u)
    have ne: "Some ?c \<noteq> Some (Suc ?c)" by simp
    have "spanName (spans w' ! ?c) = spanName (spans w2 ! ?c) \<and> parentSpan (spans w' ! ?c) = parentSpan (spans w2 ! ?c)"
      unfolding w' Inr using w2(1)
      by (auto simp: finishChildSpan_unless_finished_def finishChildSpan_spans)
    moreover have "spans w' ! Suc ?c = spans w2 ! Suc ?c"
      unfolding w' Inr using finishChildSpan_unless_spans(2)[OF ne] by simp
    moreover have "length (spans w') = length (spans w2)"
      unfolding w' Inr by (simp add: finishChildSpan_unless_spans(1))
    ultimately show ?thesis using w1 w2 by simp
  qed
  from forwarder_failure_escalations[OF gc tr run]
  have "map esc_span (escalations (new_events w w')) = [Some ?c]" by (simp add: escalation_of_def)
  with sp show ?thesis by simp
qed

theorem escalation_span_is_grandchild_witness:
  "fst refused_try = Inl (Error ''connect ECONNREFUSED'')
   \<and> map esc_span (escalations (new_events inbound (snd refused_run))) = [Some 1]
   \<and> length (spans (snd refused_run)) = 3
   \<and> spanName (spans (snd refused_run) ! 1) = ''forwardPostAuthorization''
   \<and> parentSpan (spans (snd refused_run) ! 1) = 0
   \<and> spanName (spans (snd refused_run) ! 2) = ''forwardPostAuthorizationError''
   \<and> parentSpan (spans (snd refused_run) ! 2) = 1"
proof -
  have len: "length (spans inbound) = 1"
    by (simp add: inbound_def)
  have tr: "forwardPostAuthorization_try env_forward_refused sample_path sample_headers sample_id
              sample_payload (Some (length (spans inbound)))
              (snd (getChild 0 ''forwardPostAuthorization'' inbound))
            = (Inl (Error ''connect ECONNREFUSED''), snd refused_try)"
    using refused_try_result by (simp add: refused_try_def child_world_def len prod_eq_iff)
  have run: "forwardPostAuthorization env_forward_refused sample_path sample_headers sample_id
               sample_payload (Some (SpanRef 0)) inbound = (fst refused_run, snd refused_run)"
    by (simp add: refused_run_def)
  note th = escalation_span_is_grandchild[OF tr run]
  have c1: "fst refused_try = Inl (Error ''connect ECONNREFUSED'')"
    by (rule refused_try_result)
  have c2: "map esc_span (escalations (new_events inbound (snd refused_run))) = [Some 1]"
    by (simp add: refused_run_result new_events_def inbound_def)
  have c3: "length (spans (snd refused_run)) = 3"
    by (simp add: refused_run_result)
  have c4: "spanName (spans (snd refused_run) ! 1) = ''forwardPostAuthorization''"
    by (simp add: refused_run_result)
  have c5: "parentSpan (spans (snd refused_run) ! 1) = 0"
    by (simp add: refused_run_result)
  have c6: "spanName (spans (snd refused_run) ! 2) = ''forwardPostAuthorizationError''"
    by (simp add: refused_run_result)
  have c7: "parentSpan (spans (snd refused_run) ! 2) = 1"
    by (simp add: refused_run_result)
  from th c1 c2 c3 c4 c5 c6 c7
  show ?thesis by - (intro conjI; assumption)
qed

end
